theory Spec2Isabelle
  imports Main
begin

section \<open>Text primitives used by the protocol\<close>

text \<open>
  A received line is a \<^typ>\<open>string\<close>. The model covers protocol text over ASCII: on it
  Python's \<^verbatim>\<open>str.strip\<close>, \<^verbatim>\<open>str.split\<close>, \<^verbatim>\<open>str.upper\<close> and \<^verbatim>\<open>int\<close>
  behave as written below.
\<close>

definition isspace :: "char \<Rightarrow> bool" where
  \<comment> \<open>tab, line feed, vertical tab, form feed, carriage return, the four separators
      \<^verbatim>\<open>\x1c\<close> to \<^verbatim>\<open>\x1f\<close>, and the space\<close>
  "isspace c = (let n = (of_char c :: nat) in (9 \<le> n \<and> n \<le> 13) \<or> (28 \<le> n \<and> n \<le> 32))"

definition isdigit :: "char \<Rightarrow> bool" where
  "isdigit c = (let n = (of_char c :: nat) in 48 \<le> n \<and> n \<le> 57)"

definition upper_char :: "char \<Rightarrow> char" where
  "upper_char c = (let n = (of_char c :: nat) in if 97 \<le> n \<and> n \<le> 122 then char_of (n - 32) else c)"

definition upper :: "string \<Rightarrow> string" where
  "upper s = map upper_char s"

definition strip :: "string \<Rightarrow> string" where
  "strip s = rev (dropWhile isspace (rev (dropWhile isspace s)))"

text \<open>\<^verbatim>\<open>str.split()\<close> with no separator: the maximal runs of non-whitespace, in order.
  The first argument is the token being collected.\<close>

fun split_from :: "string \<Rightarrow> string \<Rightarrow> string list" where
  "split_from tok [] = (if tok = [] then [] else [tok])"
| "split_from tok (c # cs) =
     (if isspace c then (if tok = [] then split_from [] cs else tok # split_from [] cs)
      else split_from (tok @ [c]) cs)"

definition split :: "string \<Rightarrow> string list" where
  "split s = split_from [] s"

text \<open>\<^verbatim>\<open>s.split(':', 1)\<close> for a string that contains a colon: the text before the first
  colon and the text after it.\<close>

definition split_colon :: "string \<Rightarrow> string \<times> string" where
  "split_colon s = (takeWhile (\<lambda>c. c \<noteq> CHR '':'') s, drop 1 (dropWhile (\<lambda>c. c \<noteq> CHR '':'') s))"

text \<open>
  \<^verbatim>\<open>int(s)\<close>: surrounding whitespace is ignored, then an optional sign, then decimal
  digits in which single underscores may stand between two digits. \<open>None\<close> is the
  \<^verbatim>\<open>ValueError\<close>. The interpreter also refuses a literal of more than 4300 digits.
\<close>

definition int_max_str_digits :: nat where
  "int_max_str_digits = 4300"

fun digits_shape :: "bool \<Rightarrow> string \<Rightarrow> bool" where
  \<comment> \<open>the flag says that the previous character was a digit\<close>
  "digits_shape prev [] = prev"
| "digits_shape prev (c # cs) =
     (if isdigit c then digits_shape True cs
      else if c = CHR ''_'' \<and> prev then digits_shape False cs
      else False)"

definition digits_value :: "string \<Rightarrow> int" where
  "digits_value ds = foldl (\<lambda>acc c. 10 * acc + (of_char c - 48)) 0 ds"

definition py_int :: "string \<Rightarrow> int option" where
  "py_int s =
     (let t = strip s;
          neg = (t \<noteq> [] \<and> hd t = CHR ''-'');
          body = (if t \<noteq> [] \<and> (hd t = CHR ''-'' \<or> hd t = CHR ''+'') then tl t else t);
          ds = filter isdigit body
      in if \<not> digits_shape False body then None
         else if int_max_str_digits < length ds then None
         else Some (if neg then - digits_value ds else digits_value ds))"

section \<open>Commands (commands.py)\<close>

datatype Command =
  AUTH | ADD_VM | LIST_CONNECTED | LIST_AUTHORIZED | LIST_ALL | LOGOUT | UPDATE_VM | LIST_DISKS | EXIT

text \<open>\<^verbatim>\<open>Command(value)\<close>: lookup of an enumeration member by value; \<open>None\<close> is the
  \<^verbatim>\<open>ValueError\<close>.\<close>

definition Command_of_value :: "string \<Rightarrow> Command option" where
  "Command_of_value v =
     (if v = ''AUTH'' then Some AUTH
      else if v = ''ADD_VM'' then Some ADD_VM
      else if v = ''LIST_CONNECTED'' then Some LIST_CONNECTED
      else if v = ''LIST_AUTHORIZED'' then Some LIST_AUTHORIZED
      else if v = ''LIST_ALL'' then Some LIST_ALL
      else if v = ''LOGOUT'' then Some LOGOUT
      else if v = ''UPDATE_VM'' then Some UPDATE_VM
      else if v = ''LIST_DISKS'' then Some LIST_DISKS
      else if v = ''EXIT'' then Some EXIT
      else None)"

section \<open>Machines, the durable store and the server (server.py)\<close>

text \<open>\<^verbatim>\<open>VirtualMachine.to_dict\<close> returns the five data fields; the object adds the
  connection's writer, named here by the number of the connection.\<close>

record vm_dict =
  vm_id :: string
  ram :: int
  cpu :: int
  disks :: "(string \<times> int) list"
  authorized :: bool

record VirtualMachine = vm_dict +
  writer :: nat

definition to_dict :: "VirtualMachine \<Rightarrow> vm_dict" where
  "to_dict vm = \<lparr>vm_id = vm_id vm, ram = ram vm, cpu = cpu vm, disks = disks vm,
                 authorized = authorized vm\<rparr>"

text \<open>
  The two tables of \<^verbatim>\<open>init_db\<close>. Each is the list of its rows, in the order in which
  a scan of the table returns them: the row written last comes last. The primary key is
  the first column. \<open>last_seen\<close> is a timestamp: the store's clock is a counter that the
  machine upsert reads and advances. The store is taken as reachable.
\<close>

record vm_row =
  row_vm_id :: string
  row_ram :: int
  row_cpu :: int
  row_authorized :: bool
  last_seen :: nat

record disk_row =
  disk_id :: string
  capacity :: int
  disk_vm_id :: string

record database =
  virtual_machines :: "vm_row list"
  disks_table :: "disk_row list"
  current_timestamp :: nat

text \<open>\<^verbatim>\<open>INSERT ... ON CONFLICT (key) DO UPDATE SET\<close> every other column: the row with
  the key, if there is one, gives way to the new row.\<close>

definition upsert_vm :: "vm_row \<Rightarrow> vm_row list \<Rightarrow> vm_row list" where
  "upsert_vm new rows = filter (\<lambda>row. row_vm_id row \<noteq> row_vm_id new) rows @ [new]"

definition upsert_disk :: "disk_row \<Rightarrow> disk_row list \<Rightarrow> disk_row list" where
  "upsert_disk new rows = filter (\<lambda>row. disk_id row \<noteq> disk_id new) rows @ [new]"

text \<open>
  What the store takes as an argument of a statement: a \<^verbatim>\<open>TEXT\<close> value holds no NUL
  character, an \<^verbatim>\<open>INTEGER\<close> value lies in the 32-bit range. A statement given anything
  else raises (\<^verbatim>\<open>asyncpg.exceptions.DataError\<close> or a subclass of it) and writes
  nothing.
\<close>

datatype exn = IndexError | TypeError | DataError

definition pg_text :: "string \<Rightarrow> bool" where
  "pg_text t \<longleftrightarrow> CHR 0x00 \<notin> set t"

definition pg_integer :: "int \<Rightarrow> bool" where
  "pg_integer n \<longleftrightarrow> - 2147483648 \<le> n \<and> n \<le> 2147483647"

text \<open>
  \<^verbatim>\<open>add_vm_to_db\<close>: the machine upsert, then one upsert for each disk, in order. The
  statements are not in a transaction: when one raises, what the earlier ones wrote
  stays. The result is the exception raised, if any, and the store afterwards.
\<close>

fun add_disks_to_db :: "string \<Rightarrow> (string \<times> int) list \<Rightarrow> database \<Rightarrow> exn option \<times> database" where
  "add_disks_to_db v [] d = (None, d)"
| "add_disks_to_db v (disk # rest) d =
     (if pg_text (fst disk) \<and> pg_integer (snd disk)
      then add_disks_to_db v rest
             (d\<lparr>disks_table :=
                  upsert_disk \<lparr>disk_id = fst disk, capacity = snd disk, disk_vm_id = v\<rparr>
                    (disks_table d)\<rparr>)
      else (Some DataError, d))"

definition add_vm_to_db :: "database \<Rightarrow> VirtualMachine \<Rightarrow> exn option \<times> database" where
  "add_vm_to_db d vm =
     (if pg_text (vm_id vm) \<and> pg_integer (ram vm) \<and> pg_integer (cpu vm)
      then add_disks_to_db (vm_id vm) (disks vm)
             (d\<lparr>virtual_machines :=
                  upsert_vm \<lparr>row_vm_id = vm_id vm, row_ram = ram vm, row_cpu = cpu vm,
                             row_authorized = authorized vm, last_seen = current_timestamp d\<rparr>
                    (virtual_machines d),
                current_timestamp := Suc (current_timestamp d)\<rparr>)
      else (Some DataError, d))"

text \<open>
  The server object. \<open>connected_vms\<close> is the dictionary of live machines: an association
  list in insertion order, whose values are references to machine objects. The objects
  themselves live in \<open>heap\<close>, so that the session and the dictionary share one object, as
  they do in the source; \<open>next_ref\<close> is the next unused reference.
\<close>

record ServerApp =
  auth_password :: string
  connected_vms :: "(string \<times> nat) list"
  heap :: "nat \<Rightarrow> VirtualMachine"
  next_ref :: nat
  db_pool :: database

text \<open>\<^verbatim>\<open>d[k] = v\<close> and \<^verbatim>\<open>d.pop(k, None)\<close> on a dictionary.\<close>

fun dict_set :: "'k \<Rightarrow> 'v \<Rightarrow> ('k \<times> 'v) list \<Rightarrow> ('k \<times> 'v) list" where
  "dict_set k v [] = [(k, v)]"
| "dict_set k v (e # es) = (if fst e = k then (k, v) # es else e # dict_set k v es)"

definition dict_pop :: "'k \<Rightarrow> ('k \<times> 'v) list \<Rightarrow> ('k \<times> 'v) list" where
  "dict_pop k es = filter (\<lambda>e. fst e \<noteq> k) es"

definition list_connected_vms :: "ServerApp \<Rightarrow> vm_dict list" where
  "list_connected_vms app = map (\<lambda>e. to_dict (heap app (snd e))) (connected_vms app)"

definition list_authorized_vms :: "ServerApp \<Rightarrow> vm_row list" where
  "list_authorized_vms app = filter row_authorized (virtual_machines (db_pool app))"

definition list_all_vms :: "ServerApp \<Rightarrow> vm_row list" where
  "list_all_vms app = virtual_machines (db_pool app)"

record disk_join_row =
  d_disk_id :: string
  d_capacity :: int
  d_vm_id :: string
  vm_associated :: "string option"

definition list_all_disks :: "ServerApp \<Rightarrow> disk_join_row list" where
  "list_all_disks app =
     concat (map (\<lambda>d.
       (case filter (\<lambda>v. row_vm_id v = disk_vm_id d) (virtual_machines (db_pool app)) of
          [] \<Rightarrow> [\<lparr>d_disk_id = disk_id d, d_capacity = capacity d, d_vm_id = disk_vm_id d,
                  vm_associated = None\<rparr>]
        | vs \<Rightarrow> map (\<lambda>v. \<lparr>d_disk_id = disk_id d, d_capacity = capacity d,
                           d_vm_id = disk_vm_id d, vm_associated = Some (row_vm_id v)\<rparr>) vs))
       (disks_table (db_pool app)))"

section \<open>The connection handler\<close>

text \<open>
  The lines the server writes. The source's texts are Russian sentences; each
  constructor stands for one of them, in the order in which \<^verbatim>\<open>handle_client\<close> has
  them:
  \<^item> \<open>UnknownCommand\<close>: "unknown command" (written at two places);
  \<^item> \<open>AuthMissingArgs\<close>: "error: not enough arguments for AUTH";
  \<^item> \<open>BadPassword\<close>: "error: wrong password";
  \<^item> \<open>AlreadyAuthorized\<close>: "you are already authorized";
  \<^item> \<open>AuthSuccess v\<close>: "successful authentication for VM v";
  \<^item> \<open>NotAuthenticatedAuthFirst\<close>: "error: not authenticated. Run AUTH first" (ADD_VM);
  \<^item> \<open>Forbidden\<close>: "error: access denied. You can manage only your own virtual machine";
  \<^item> \<open>AddVmMissingArgs\<close>: "error: not enough arguments for ADD_VM";
  \<^item> \<open>BadNumber\<close>: "error: wrong format of the numeric parameters" (ADD_VM and UPDATE_VM);
  \<^item> \<open>AddVmOk v\<close>: "data for VM v added";
  \<^item> \<open>NotAuthenticated\<close>: "error: not authenticated" (UPDATE_VM and LOGOUT);
  \<^item> \<open>UpdateVmMissingArgs\<close>: "error: not enough arguments for UPDATE_VM";
  \<^item> \<open>UpdateVmOk v\<close>: "VM v updated";
  \<^item> \<open>JsonVms\<close>, \<open>JsonRows\<close>, \<open>JsonDisks\<close>: one JSON array;
  \<^item> \<open>LogoutOk v\<close>: "VM v logged out".
\<close>

datatype response =
    UnknownCommand
  | AuthMissingArgs
  | BadPassword
  | AlreadyAuthorized
  | AuthSuccess string
  | NotAuthenticatedAuthFirst
  | Forbidden
  | AddVmMissingArgs
  | BadNumber
  | AddVmOk string
  | NotAuthenticated
  | UpdateVmMissingArgs
  | UpdateVmOk string
  | JsonVms "vm_dict list"
  | JsonRows "vm_row list"
  | JsonDisks "disk_join_row list"
  | LogoutOk string

text \<open>An exception that leaves the command loop (\<open>exn\<close>) is caught by the handler's
  outer \<^verbatim>\<open>except Exception\<close>, which ends the connection.\<close>

datatype outcome = Reply response | Raise exn

text \<open>
  \<^verbatim>\<open>json.dumps\<close> of the rows of \<^verbatim>\<open>virtual_machines\<close> as \<^verbatim>\<open>list_authorized_vms\<close> and
  \<^verbatim>\<open>list_all_vms\<close> return them: selected with \<^verbatim>\<open>SELECT *\<close>, so with the \<open>last_seen\<close>
  column. The driver hands a \<^verbatim>\<open>TIMESTAMP\<close> over as a \<^verbatim>\<open>datetime\<close> object, which
  \<^verbatim>\<open>json.dumps\<close> cannot serialise: it raises \<^verbatim>\<open>TypeError\<close> unless there is no row at
  all.
\<close>

definition json_dumps_rows :: "vm_row list \<Rightarrow> outcome" where
  "json_dumps_rows rows = (if rows = [] then Reply (JsonRows []) else Raise TypeError)"

text \<open>The local state of one run of \<^verbatim>\<open>handle_client\<close>: its writer, the variable
  \<^verbatim>\<open>current_vm\<close> (a reference into the heap), and whether the run has ended.\<close>

record session =
  conn_writer :: nat
  current_vm :: "nat option"
  closed :: bool

text \<open>The loop over the disk tokens of ADD_VM and UPDATE_VM; the first argument is the
  list \<^verbatim>\<open>disks\<close> being appended to.\<close>

fun parse_disks :: "(string \<times> int) list \<Rightarrow> string list \<Rightarrow> (string \<times> int) list" where
  "parse_disks acc [] = acc"
| "parse_disks acc (disk_str # rest) =
     (if CHR '':'' \<notin> set disk_str then parse_disks acc rest
      else (case py_int (snd (split_colon disk_str)) of
              None \<Rightarrow> parse_disks acc rest
            | Some cap \<Rightarrow> parse_disks (acc @ [(fst (split_colon disk_str), cap)]) rest))"

text \<open>
  One command, already recognised, with its tokens \<open>parts\<close> (token 0 is the command
  word). Each branch follows the branch of the same name in \<^verbatim>\<open>handle_client\<close>, with
  its checks in the source's order. The result is the line written, or the exception
  raised, and the server and session afterwards. Where the source awaits
  \<^verbatim>\<open>add_vm_to_db\<close> and the store raises, what the branch did before stays done and
  what comes after (the reply, and for LOGOUT the removal from the registry) is not
  reached.
\<close>

definition handle_AUTH :: "ServerApp \<Rightarrow> session \<Rightarrow> string list \<Rightarrow> outcome \<times> ServerApp \<times> session" where
  "handle_AUTH app s parts =
     (if length parts < 3 then (Reply AuthMissingArgs, app, s)
      else if parts ! 2 \<noteq> auth_password app then (Reply BadPassword, app, s)
      else if current_vm s \<noteq> None then (Reply AlreadyAuthorized, app, s)
      else
        let r = next_ref app;
            vm = \<lparr>vm_id = parts ! 1, ram = 0, cpu = 0, disks = [], authorized = True,
                  writer = conn_writer s\<rparr>;
            app1 = app\<lparr>heap := (heap app)(r := vm),
                       next_ref := Suc r,
                       connected_vms := dict_set (parts ! 1) r (connected_vms app)\<rparr>;
            s1 = s\<lparr>current_vm := Some r\<rparr>
        in (case add_vm_to_db (db_pool app1) vm of
              (Some e, d) \<Rightarrow> (Raise e, app1\<lparr>db_pool := d\<rparr>, s1)
            | (None, d) \<Rightarrow> (Reply (AuthSuccess (parts ! 1)), app1\<lparr>db_pool := d\<rparr>, s1)))"

definition handle_ADD_VM :: "ServerApp \<Rightarrow> session \<Rightarrow> string list \<Rightarrow> outcome \<times> ServerApp \<times> session" where
  "handle_ADD_VM app s parts =
     (case current_vm s of
        None \<Rightarrow> (Reply NotAuthenticatedAuthFirst, app, s)
      | Some r \<Rightarrow>
          if length parts < 2 then (Raise IndexError, app, s)
          else if parts ! 1 \<noteq> vm_id (heap app r) then (Reply Forbidden, app, s)
          else if length parts < 4 then (Reply AddVmMissingArgs, app, s)
          else (case py_int (parts ! 2) of
                  None \<Rightarrow> (Reply BadNumber, app, s)
                | Some ram' \<Rightarrow>
                   (case py_int (parts ! 3) of
                      None \<Rightarrow> (Reply BadNumber, app, s)
                    | Some cpu' \<Rightarrow>
                        let vm = (heap app r)\<lparr>ram := ram', cpu := cpu',
                                               disks := parse_disks [] (drop 4 parts)\<rparr>;
                            app1 = app\<lparr>heap := (heap app)(r := vm)\<rparr>
                        in (case add_vm_to_db (db_pool app1) vm of
                              (Some e, d) \<Rightarrow> (Raise e, app1\<lparr>db_pool := d\<rparr>, s)
                            | (None, d) \<Rightarrow>
                                (Reply (AddVmOk (vm_id vm)), app1\<lparr>db_pool := d\<rparr>, s)))))"

text \<open>UPDATE_VM assigns \<^verbatim>\<open>current_vm.ram\<close> before it parses the cpu token.\<close>

definition handle_UPDATE_VM :: "ServerApp \<Rightarrow> session \<Rightarrow> string list \<Rightarrow> outcome \<times> ServerApp \<times> session" where
  "handle_UPDATE_VM app s parts =
     (case current_vm s of
        None \<Rightarrow> (Reply NotAuthenticated, app, s)
      | Some r \<Rightarrow>
          if length parts < 3 then (Reply UpdateVmMissingArgs, app, s)
          else (case py_int (parts ! 1) of
                  None \<Rightarrow> (Reply BadNumber, app, s)
                | Some ram' \<Rightarrow>
                   let app1 = app\<lparr>heap := (heap app)(r := (heap app r)\<lparr>ram := ram'\<rparr>)\<rparr>
                   in (case py_int (parts ! 2) of
                         None \<Rightarrow> (Reply BadNumber, app1, s)
                       | Some cpu' \<Rightarrow>
                           let new_disks = parse_disks [] (drop 3 parts);
                               vm1 = (heap app1 r)\<lparr>cpu := cpu'\<rparr>;
                               vm = (if new_disks \<noteq> [] then vm1\<lparr>disks := new_disks\<rparr> else vm1);
                               app2 = app1\<lparr>heap := (heap app1)(r := vm)\<rparr>
                           in (case add_vm_to_db (db_pool app2) vm of
                                 (Some e, d) \<Rightarrow> (Raise e, app2\<lparr>db_pool := d\<rparr>, s)
                               | (None, d) \<Rightarrow>
                                   (Reply (UpdateVmOk (vm_id vm)), app2\<lparr>db_pool := d\<rparr>, s)))))"

definition handle_LOGOUT :: "ServerApp \<Rightarrow> session \<Rightarrow> outcome \<times> ServerApp \<times> session" where
  "handle_LOGOUT app s =
     (case current_vm s of
        Some r \<Rightarrow>
          let vm = (heap app r)\<lparr>authorized := False\<rparr>;
              app1 = app\<lparr>heap := (heap app)(r := vm)\<rparr>
          in (case add_vm_to_db (db_pool app1) vm of
                (Some e, d) \<Rightarrow> (Raise e, app1\<lparr>db_pool := d\<rparr>, s)
              | (None, d) \<Rightarrow>
                  (Reply (LogoutOk (vm_id vm)),
                   app1\<lparr>db_pool := d,
                        connected_vms := dict_pop (vm_id vm) (connected_vms app1)\<rparr>,
                   s\<lparr>current_vm := None\<rparr>))
      | None \<Rightarrow> (Reply NotAuthenticated, app, s))"

fun handle_command :: "ServerApp \<Rightarrow> session \<Rightarrow> Command \<Rightarrow> string list \<Rightarrow> outcome \<times> ServerApp \<times> session" where
  "handle_command app s AUTH parts = handle_AUTH app s parts"
| "handle_command app s ADD_VM parts = handle_ADD_VM app s parts"
| "handle_command app s UPDATE_VM parts = handle_UPDATE_VM app s parts"
| "handle_command app s LIST_CONNECTED parts = (Reply (JsonVms (list_connected_vms app)), app, s)"
| "handle_command app s LIST_AUTHORIZED parts = (json_dumps_rows (list_authorized_vms app), app, s)"
| "handle_command app s LIST_ALL parts = (json_dumps_rows (list_all_vms app), app, s)"
| "handle_command app s LIST_DISKS parts = (Reply (JsonDisks (list_all_disks app)), app, s)"
| "handle_command app s LOGOUT parts = handle_LOGOUT app s"
| "handle_command app s EXIT parts = (Reply UnknownCommand, app, s)"

text \<open>The body of the \<^verbatim>\<open>while True\<close> loop for one line that was read: \<open>None\<close> is the
  \<^verbatim>\<open>continue\<close> on an empty message, which writes nothing.\<close>

definition handle_line :: "ServerApp \<Rightarrow> session \<Rightarrow> string \<Rightarrow> outcome option \<times> ServerApp \<times> session" where
  "handle_line app s data =
     (let message = strip data
      in if message = [] then (None, app, s)
         else (case split message of
                 [] \<Rightarrow> (Some (Raise IndexError), app, s)
               | p0 # ps \<Rightarrow>
                  (case Command_of_value (upper p0) of
                     None \<Rightarrow> (Some (Reply UnknownCommand), app, s)
                   | Some command \<Rightarrow>
                       (case handle_command app s command (p0 # ps) of
                          (out, app', s') \<Rightarrow> (Some out, app', s')))))"

text \<open>The \<^verbatim>\<open>finally\<close> block: the dictionary entry under the bound machine's id is
  removed and the writer is closed.\<close>

definition finally_block :: "ServerApp \<Rightarrow> session \<Rightarrow> ServerApp \<times> session" where
  "finally_block app s =
     ((case current_vm s of
         Some r \<Rightarrow> app\<lparr>connected_vms := dict_pop (vm_id (heap app r)) (connected_vms app)\<rparr>
       | None \<Rightarrow> app),
      s\<lparr>closed := True\<rparr>)"

text \<open>
  What a connection meets at \<^verbatim>\<open>reader.readline()\<close>: a line (the non-empty text
  read, decoded), the end of input, or an exception of the transport or of
  \<^verbatim>\<open>decode\<close>. One event is one turn of the \<^verbatim>\<open>while\<close> loop, taken as a whole: the
  turns of different connections interleave, the steps within one turn do not. The
  result lists the lines written during the turn; writing is taken to succeed. A
  connection whose handler has ended meets no further event. The operator console
  (\<^verbatim>\<open>internal_command_handler\<close>) is not part of the model.
\<close>

datatype event = Line string | Eof | ReadError

fun handle_event :: "ServerApp \<Rightarrow> session \<Rightarrow> event \<Rightarrow> ServerApp \<times> session \<times> response list" where
  "handle_event app s ev =
     (if closed s then (app, s, [])
      else (case ev of
              Eof \<Rightarrow> (case finally_block app s of (app', s') \<Rightarrow> (app', s', []))
            | ReadError \<Rightarrow> (case finally_block app s of (app', s') \<Rightarrow> (app', s', []))
            | Line data \<Rightarrow>
               (case handle_line app s data of
                  (None, app', s') \<Rightarrow> (app', s', [])
                | (Some (Reply line), app', s') \<Rightarrow> (app', s', [line])
                | (Some (Raise e), app', s') \<Rightarrow>
                    (case finally_block app' s' of (app'', s'') \<Rightarrow> (app'', s'', [])))))"

fun handle_client :: "ServerApp \<Rightarrow> session \<Rightarrow> event list \<Rightarrow> ServerApp \<times> session \<times> response list" where
  "handle_client app s [] = (app, s, [])"
| "handle_client app s (ev # evs) =
     (case handle_event app s ev of
        (app', s', out) \<Rightarrow>
          (case handle_client app' s' evs of (app'', s'', out') \<Rightarrow> (app'', s'', out @ out')))"

text \<open>The server as \<^verbatim>\<open>ServerApp.__init__\<close> and \<^verbatim>\<open>init_db\<close> on an empty database leave
  it, with the secret of settings.py, and a connection that has just been accepted. A
  reference that has not been allocated holds \<open>blank_vm\<close>; the handler reads no reference
  before AUTH has allocated it.\<close>

definition blank_vm :: VirtualMachine where
  "blank_vm = \<lparr>vm_id = [], ram = 0, cpu = 0, disks = [], authorized = False, writer = 0\<rparr>"

definition init_app :: ServerApp where
  "init_app = \<lparr>auth_password = ''secret'', connected_vms = [], heap = (\<lambda>r. blank_vm),
               next_ref = 0,
               db_pool = \<lparr>virtual_machines = [], disks_table = [], current_timestamp = 0\<rparr>\<rparr>"

definition new_session :: "nat \<Rightarrow> session" where
  "new_session w = \<lparr>conn_writer = w, current_vm = None, closed = False\<rparr>"

section \<open>Notions used to state the properties\<close>

text \<open>
  The disk list as the specification words it: "exactly the well-formed id:capacity
  tokens supplied, in order of appearance", a token being malformed when it has no colon
  or when the text after its first colon is not an integer.
\<close>

definition well_formed_disk_token :: "string \<Rightarrow> bool" where
  "well_formed_disk_token tok \<longleftrightarrow>
     CHR '':'' \<in> set tok \<and> py_int (snd (split_colon tok)) \<noteq> None"

definition disk_of_token :: "string \<Rightarrow> string \<times> int" where
  "disk_of_token tok = (fst (split_colon tok), the (py_int (snd (split_colon tok))))"

definition well_formed_disks :: "string list \<Rightarrow> (string \<times> int) list" where
  "well_formed_disks toks = map disk_of_token (filter well_formed_disk_token toks)"

text \<open>The store accepts a machine: every argument of the statements of
  \<^verbatim>\<open>add_vm_to_db\<close> for it is one the store takes.\<close>

definition store_accepts :: "VirtualMachine \<Rightarrow> bool" where
  "store_accepts vm \<longleftrightarrow>
     pg_text (vm_id vm) \<and> pg_integer (ram vm) \<and> pg_integer (cpu vm) \<and>
     list_all (\<lambda>disk. pg_text (fst disk) \<and> pg_integer (snd disk)) (disks vm)"

text \<open>
  The dictionary \<open>connected_vms\<close> is well formed: its keys are distinct, every entry is
  filed under the id of the machine it refers to, and every reference has been allocated.
\<close>

definition registry_ok :: "ServerApp \<Rightarrow> bool" where
  "registry_ok app \<longleftrightarrow>
     distinct (map fst (connected_vms app)) \<and>
     list_all (\<lambda>e. vm_id (heap app (snd e)) = fst e \<and> snd e < next_ref app) (connected_vms app)"

text \<open>The server and the session of connection 0 after it has sent
  \<^verbatim>\<open>AUTH vm1 secret\<close> to the initial server.\<close>

definition vm1_app :: ServerApp where
  "vm1_app = fst (handle_event init_app (new_session 0) (Line ''AUTH vm1 secret''))"

definition vm1_session :: session where
  "vm1_session = fst (snd (handle_event init_app (new_session 0) (Line ''AUTH vm1 secret'')))"


text \<open>The server after the connection bound to vm1 has declared one disk.\<close>

definition vm1_disk_app :: ServerApp where
  "vm1_disk_app = fst (handle_event vm1_app vm1_session (Line ''ADD_VM vm1 2048 2 d1:100''))"

section \<open>Basic facts\<close>

subsection \<open>From a line to its command\<close>

lemma split_nonempty_strip: "split (strip data) = p0 # ps \<Longrightarrow> strip data \<noteq> []"
  by (auto simp: split_def)

lemma handle_line_parsed:
  assumes "split (strip data) = p0 # ps" and "Command_of_value (upper p0) = Some c"
  shows "handle_line app s data =
    (case handle_command app s c (p0 # ps) of (out, app', s') \<Rightarrow> (Some out, app', s'))"
  using assms split_nonempty_strip[OF assms(1)] by (simp add: handle_line_def Let_def)

lemma handle_event_Line:
  assumes "\<not> closed s" and "split (strip data) = p0 # ps"
    and "Command_of_value (upper p0) = Some c"
  shows "handle_event app s (Line data) =
    (case handle_command app s c (p0 # ps) of
       (Reply line, app', s') \<Rightarrow> (app', s', [line])
     | (Raise e, app', s') \<Rightarrow> (case finally_block app' s' of (app'', s'') \<Rightarrow> (app'', s'', [])))"
  using assms(1) by (simp add: handle_line_parsed[OF assms(2,3)] split: prod.splits outcome.splits)

declare handle_event.simps [simp del]

subsection \<open>The disk loop, the tables and the dictionary\<close>

lemma parse_disks_acc: "parse_disks acc toks = acc @ well_formed_disks toks"
  by (induction toks arbitrary: acc)
     (auto simp: well_formed_disks_def well_formed_disk_token_def disk_of_token_def)

lemma virtual_machines_add_disks [simp]:
  "virtual_machines (snd (add_disks_to_db v ds d)) = virtual_machines d"
  by (induction ds arbitrary: d) auto

lemma current_timestamp_add_disks [simp]:
  "current_timestamp (snd (add_disks_to_db v ds d)) = current_timestamp d"
  by (induction ds arbitrary: d) auto

lemma add_disks_to_db_None:
  "fst (add_disks_to_db v ds d) = None \<longleftrightarrow>
   list_all (\<lambda>disk. pg_text (fst disk) \<and> pg_integer (snd disk)) ds"
  by (induction ds arbitrary: d) auto

lemma add_vm_to_db_None: "fst (add_vm_to_db d vm) = None \<longleftrightarrow> store_accepts vm"
  by (auto simp: add_vm_to_db_def store_accepts_def add_disks_to_db_None)

lemma add_vm_to_db_accepted:
  "add_vm_to_db d vm = (None, d') \<Longrightarrow> store_accepts vm \<and> d' = snd (add_vm_to_db d vm)"
  using add_vm_to_db_None[of d vm] by simp

lemma add_vm_to_db_refused: "add_vm_to_db d vm = (Some e, d') \<Longrightarrow> \<not> store_accepts vm"
  using add_vm_to_db_None[of d vm] by simp




lemma map_of_dict_set: "map_of (dict_set k v es) k = Some v"
  by (induction es) auto

lemma map_of_dict_pop: "map_of (dict_pop k es) k = None"
  by (induction es) (auto simp: dict_pop_def)

lemma set_dict_set: "set (dict_set k v es) \<subseteq> insert (k, v) (set es)"
  by (induction es) auto

lemma fst_set_dict_set: "fst ` set (dict_set k v es) = insert k (fst ` set es)"
  by (induction es) auto

lemma distinct_dict_set:
  "distinct (map fst es) \<Longrightarrow> distinct (map fst (dict_set k v es))"
  by (induction es) (auto simp: fst_set_dict_set)

lemma list_all_dict_set: "P (k, v) \<Longrightarrow> list_all P es \<Longrightarrow> list_all P (dict_set k v es)"
  by (induction es) auto

lemma distinct_dict_pop:
  "distinct (map fst es) \<Longrightarrow> distinct (map fst (dict_pop k es))"
  by (simp add: dict_pop_def distinct_map_filter)

subsection \<open>The dictionary stays well formed\<close>

text \<open>Every event of every connection keeps \<open>registry_ok\<close>, and the initial server has
  it: it holds in every state the server reaches.\<close>

lemma registry_ok_init: "registry_ok init_app"
  by (simp add: registry_ok_def init_app_def)

lemma registry_ok_heap_update:
  "registry_ok app \<Longrightarrow> vm_id vm = vm_id (heap app r) \<Longrightarrow>
   registry_ok (app\<lparr>heap := (heap app)(r := vm)\<rparr>)"
  by (auto simp: registry_ok_def list_all_iff)

lemma registry_ok_db [simp]: "registry_ok (app\<lparr>db_pool := d\<rparr>) = registry_ok app"
  by (simp add: registry_ok_def)

lemma registry_ok_pop:
  "registry_ok app \<Longrightarrow> registry_ok (app\<lparr>connected_vms := dict_pop k (connected_vms app)\<rparr>)"
  by (auto simp: registry_ok_def list_all_iff distinct_dict_pop) (auto simp: dict_pop_def)

lemma registry_ok_AUTH: "registry_ok app \<Longrightarrow> registry_ok (fst (snd (handle_AUTH app s parts)))"
  unfolding registry_ok_def handle_AUTH_def Let_def
  by (auto simp: distinct_dict_set list_all_iff split: prod.splits option.splits
           intro!: list_all_dict_set[unfolded list_all_iff] dest!: subsetD[OF set_dict_set])

lemma registry_ok_ADD_VM: "registry_ok app \<Longrightarrow> registry_ok (fst (snd (handle_ADD_VM app s parts)))"
  unfolding handle_ADD_VM_def Let_def
  by (auto split: option.splits prod.splits intro!: registry_ok_heap_update)

lemma registry_ok_UPDATE_VM:
  "registry_ok app \<Longrightarrow> registry_ok (fst (snd (handle_UPDATE_VM app s parts)))"
  unfolding handle_UPDATE_VM_def Let_def
  by (auto split: option.splits prod.splits simp: registry_ok_def list_all_iff)

lemma registry_ok_LOGOUT: "registry_ok app \<Longrightarrow> registry_ok (fst (snd (handle_LOGOUT app s)))"
  unfolding handle_LOGOUT_def Let_def
  by (auto split: option.splits prod.splits simp: registry_ok_def list_all_iff distinct_dict_pop)
     (auto simp: dict_pop_def)

lemma registry_ok_handle_command:
  "registry_ok app \<Longrightarrow> registry_ok (fst (snd (handle_command app s c parts)))"
  by (cases c)
     (simp_all add: registry_ok_AUTH registry_ok_ADD_VM registry_ok_UPDATE_VM registry_ok_LOGOUT)

lemma registry_ok_finally: "registry_ok app \<Longrightarrow> registry_ok (fst (finally_block app s))"
  by (auto simp: finally_block_def registry_ok_pop split: option.splits)

lemma registry_ok_handle_line:
  "registry_ok app \<Longrightarrow> registry_ok (fst (snd (handle_line app s data)))"
  using registry_ok_handle_command
  by (auto simp: handle_line_def Let_def split: list.splits option.splits prod.splits)
     (metis fst_conv snd_conv)

lemma registry_ok_handle_event:
  "registry_ok app \<Longrightarrow> registry_ok (fst (handle_event app s ev))"
  using registry_ok_handle_line[of app s] registry_ok_finally
  by (auto simp: handle_event.simps split: event.splits prod.splits option.splits outcome.splits)
     (metis fst_conv snd_conv)+

lemma not_listed_after_pop:
  assumes "registry_ok app"
  shows "k \<notin> vm_id ` set (list_connected_vms (app\<lparr>connected_vms := dict_pop k (connected_vms app)\<rparr>))"
  using assms
  by (auto simp: registry_ok_def list_all_iff list_connected_vms_def dict_pop_def to_dict_def)

lemma result_triple: "x = (fst x, fst (snd x), snd (snd x))"
  by simp

subsection \<open>What the handler does on malformed commands and at the end of a connection\<close>

text \<open>On a session with a bound identity, a command with too few tokens or with a
  non-integer number is answered with its error line and changes nothing, in the cases
  listed here.\<close>

lemma malformed_command_unchanged:
  assumes "\<not> closed s" and "current_vm s = Some r"
    and "split (strip data) = p0 # ps"
    and "Command_of_value (upper p0) = Some c"
  shows "c = AUTH \<and> length ps < 2 \<longrightarrow>
           handle_event app s (Line data) = (app, s, [AuthMissingArgs])"
    and "c = ADD_VM \<and> 1 \<le> length ps \<and> length ps < 3 \<and> ps ! 0 = vm_id (heap app r) \<longrightarrow>
           handle_event app s (Line data) = (app, s, [AddVmMissingArgs])"
    and "c = ADD_VM \<and> 3 \<le> length ps \<and> ps ! 0 = vm_id (heap app r) \<and>
         (py_int (ps ! 1) = None \<or> py_int (ps ! 2) = None) \<longrightarrow>
           handle_event app s (Line data) = (app, s, [BadNumber])"
    and "c = UPDATE_VM \<and> length ps < 2 \<longrightarrow>
           handle_event app s (Line data) = (app, s, [UpdateVmMissingArgs])"
    and "c = UPDATE_VM \<and> 2 \<le> length ps \<and> py_int (ps ! 0) = None \<longrightarrow>
           handle_event app s (Line data) = (app, s, [BadNumber])"
  using assms(2) unfolding handle_event_Line[OF assms(1,3,4)]
  by (auto simp: handle_AUTH_def handle_ADD_VM_def handle_UPDATE_VM_def split: option.splits)

text \<open>The two cases left: UPDATE_VM with an integer ram token and a non-integer cpu
  token stores the new ram in the bound machine; ADD_VM with no other token ends the
  connection.\<close>

lemma update_vm_bad_cpu:
  assumes "\<not> closed s" and "current_vm s = Some r"
    and "split (strip data) = p0 # t1 # t2 # rest"
    and "Command_of_value (upper p0) = Some UPDATE_VM"
    and "py_int t1 = Some n" and "py_int t2 = None"
  shows "handle_event app s (Line data) =
    (app\<lparr>heap := (heap app)(r := (heap app r)\<lparr>ram := n\<rparr>)\<rparr>, s, [BadNumber])"
  using assms(2,5,6) unfolding handle_event_Line[OF assms(1,3,4)]
  by (simp add: handle_UPDATE_VM_def)

lemma bare_add_vm:
  assumes "\<not> closed s" and "current_vm s = Some r"
    and "split (strip data) = [p0]"
    and "Command_of_value (upper p0) = Some ADD_VM"
  shows "handle_event app s (Line data) =
    (app\<lparr>connected_vms := dict_pop (vm_id (heap app r)) (connected_vms app)\<rparr>,
     s\<lparr>closed := True\<rparr>, [])"
  using assms(2) unfolding handle_event_Line[OF assms(1,3,4)]
  by (simp add: handle_ADD_VM_def finally_block_def)

text \<open>The end of a connection removes the registry entry under the bound machine's id
  and touches neither the machine objects nor the store.\<close>

lemma disconnect_keeps_store:
  assumes "\<not> closed s" and "ev = Eof \<or> ev = ReadError"
  shows "handle_event app s ev =
    ((case current_vm s of
        Some r \<Rightarrow> app\<lparr>connected_vms := dict_pop (vm_id (heap app r)) (connected_vms app)\<rparr>
      | None \<Rightarrow> app), s\<lparr>closed := True\<rparr>, [])"
    and "list_authorized_vms (fst (handle_event app s ev)) = list_authorized_vms app"
  using assms
  by (auto simp: handle_event.simps finally_block_def list_authorized_vms_def split: option.splits)

section \<open>Malformed commands\<close>

text \<open>
  Claim C1 says that a malformed command leaves the bound machine's fields unchanged, in
  particular an UPDATE_VM whose ram token is an integer and whose cpu token is not. The
  handler assigns the ram field before it parses the cpu token: on the connection that
  sends \<^verbatim>\<open>AUTH vm1 secret\<close> and then \<^verbatim>\<open>UPDATE_VM 4096 abc\<close> the second line is
  answered with the bad-number error, the machine's ram has gone from 0 to 4096 for every
  reader of the registry, and the store still holds what AUTH wrote.
\<close>

theorem update_vm_bad_cpu_keeps_new_ram:
  "snd (snd (handle_client init_app (new_session 0)
        [Line ''AUTH vm1 secret'', Line ''UPDATE_VM 4096 abc''])) = [AuthSuccess ''vm1'', BadNumber]
   \<and> map ram (list_connected_vms (fst (handle_client init_app (new_session 0)
        [Line ''AUTH vm1 secret'']))) = [0]
   \<and> map ram (list_connected_vms (fst (handle_client init_app (new_session 0)
        [Line ''AUTH vm1 secret'', Line ''UPDATE_VM 4096 abc'']))) = [4096]
   \<and> db_pool (fst (handle_client init_app (new_session 0)
        [Line ''AUTH vm1 secret'', Line ''UPDATE_VM 4096 abc'']))
     = db_pool (fst (handle_client init_app (new_session 0) [Line ''AUTH vm1 secret'']))"
  by code_simp

section \<open>Commands without a bound identity\<close>

text \<open>
  Claim C2 says that every command other than AUTH and LOGOUT, the four LIST commands
  included, is answered with a not-authenticated error on a session with no identity
  bound. The LIST branches of the handler never look at \<^verbatim>\<open>current_vm\<close>: a fresh
  connection to the initial server gets a JSON array for each of them. This is the
  counterexample to C2.
\<close>

theorem list_unauthenticated_counterexample:
  "current_vm (new_session 0) = None
   \<and> snd (snd (handle_event init_app (new_session 0) (Line ''LIST_CONNECTED''))) = [JsonVms []]
   \<and> snd (snd (handle_event init_app (new_session 0) (Line ''LIST_AUTHORIZED''))) = [JsonRows []]
   \<and> snd (snd (handle_event init_app (new_session 0) (Line ''LIST_ALL''))) = [JsonRows []]
   \<and> snd (snd (handle_event init_app (new_session 0) (Line ''LIST_DISKS''))) = [JsonDisks []]"
  by code_simp

text \<open>
  Claim C2 as amended: on an open session with no identity bound, ADD_VM and UPDATE_VM
  (and LOGOUT) are answered with a not-authenticated error line and change nothing;
  LIST_CONNECTED and LIST_DISKS are answered with their JSON array and change nothing;
  LIST_AUTHORIZED and LIST_ALL are never answered with a not-authenticated line; and no
  command other than AUTH changes the server (registry, machines, store) or binds an
  identity.
\<close>

theorem unauthenticated_commands:
  assumes "\<not> closed s" and "current_vm s = None"
    and "split (strip data) = p0 # ps"
    and "Command_of_value (upper p0) = Some c" and "c \<noteq> AUTH"
    and "handle_event app s (Line data) = (app', s', out)"
  shows "app' = app \<and> current_vm s' = None \<and>
    (case c of
       ADD_VM \<Rightarrow> out = [NotAuthenticatedAuthFirst] \<and> s' = s
     | UPDATE_VM \<Rightarrow> out = [NotAuthenticated] \<and> s' = s
     | LOGOUT \<Rightarrow> out = [NotAuthenticated] \<and> s' = s
     | LIST_CONNECTED \<Rightarrow> out = [JsonVms (list_connected_vms app)] \<and> s' = s
     | LIST_DISKS \<Rightarrow> out = [JsonDisks (list_all_disks app)] \<and> s' = s
     | LIST_AUTHORIZED \<Rightarrow> NotAuthenticated \<notin> set out \<and> NotAuthenticatedAuthFirst \<notin> set out
     | LIST_ALL \<Rightarrow> NotAuthenticated \<notin> set out \<and> NotAuthenticatedAuthFirst \<notin> set out
     | _ \<Rightarrow> out = [UnknownCommand] \<and> s' = s)"
  using assms(2,5,6) unfolding handle_event_Line[OF assms(1,3,4)]
  by (cases c)
     (auto simp: handle_ADD_VM_def handle_UPDATE_VM_def handle_LOGOUT_def json_dumps_rows_def
        finally_block_def split: if_splits)

text \<open>Witness for C2 as amended: a second, unauthenticated connection to the server on
  which vm1 is logged in sends ADD_VM, UPDATE_VM and LIST_CONNECTED.\<close>

theorem unauthenticated_commands_witness:
  "\<not> closed (new_session 1) \<and> current_vm (new_session 1) = None \<and>
   split (strip ''ADD_VM vm2 2048 2 d1:100'') = [''ADD_VM'', ''vm2'', ''2048'', ''2'', ''d1:100''] \<and>
   Command_of_value (upper ''ADD_VM'') = Some ADD_VM \<and>
   split (strip ''UPDATE_VM 4096 4'') = [''UPDATE_VM'', ''4096'', ''4''] \<and>
   Command_of_value (upper ''UPDATE_VM'') = Some UPDATE_VM \<and>
   split (strip ''LIST_CONNECTED'') = [''LIST_CONNECTED''] \<and>
   Command_of_value (upper ''LIST_CONNECTED'') = Some LIST_CONNECTED \<and>
   handle_event vm1_app (new_session 1) (Line ''ADD_VM vm2 2048 2 d1:100'') =
     (vm1_app, new_session 1, [NotAuthenticatedAuthFirst]) \<and>
   handle_event vm1_app (new_session 1) (Line ''UPDATE_VM 4096 4'') =
     (vm1_app, new_session 1, [NotAuthenticated]) \<and>
   handle_event vm1_app (new_session 1) (Line ''LIST_CONNECTED'') =
     (vm1_app, new_session 1, [JsonVms (list_connected_vms vm1_app)])"
proof -
  let ?s = "new_session 1"
  have h1: "\<not> closed ?s" by code_simp
  have h2: "current_vm ?s = None" by code_simp
  have a3: "split (strip ''ADD_VM vm2 2048 2 d1:100'')
    = [''ADD_VM'', ''vm2'', ''2048'', ''2'', ''d1:100'']" by code_simp
  have a4: "Command_of_value (upper ''ADD_VM'') = Some ADD_VM" by code_simp
  have b3: "split (strip ''UPDATE_VM 4096 4'') = [''UPDATE_VM'', ''4096'', ''4'']" by code_simp
  have b4: "Command_of_value (upper ''UPDATE_VM'') = Some UPDATE_VM" by code_simp
  have c3: "split (strip ''LIST_CONNECTED'') = [''LIST_CONNECTED'']" by code_simp
  have c4: "Command_of_value (upper ''LIST_CONNECTED'') = Some LIST_CONNECTED" by code_simp
  show ?thesis
    using h1 h2 a3 a4 b3 b4 c3 c4
      unauthenticated_commands[OF h1 h2 a3 a4 _ result_triple, of vm1_app]
      unauthenticated_commands[OF h1 h2 b3 b4 _ result_triple, of vm1_app]
      unauthenticated_commands[OF h1 h2 c3 c4 _ result_triple, of vm1_app]
    by (simp add: prod_eq_iff)
qed

section \<open>ADD_VM with too few tokens\<close>

text \<open>
  Claim C3 says that an ADD_VM with fewer than four tokens, the bare \<^verbatim>\<open>ADD_VM\<close>
  included, is answered with the missing-arguments line on a connection that stays open.
  The handler reads token 1 before it counts the tokens: on an authenticated connection
  the bare \<^verbatim>\<open>ADD_VM\<close> raises, nothing is written for it, and the connection is closed
  and its machine removed from the registry.
\<close>

theorem bare_add_vm_closes_connection:
  "snd (snd (handle_client init_app (new_session 0)
        [Line ''AUTH vm1 secret'', Line ''ADD_VM''])) = [AuthSuccess ''vm1'']
   \<and> closed (fst (snd (handle_client init_app (new_session 0)
        [Line ''AUTH vm1 secret'', Line ''ADD_VM''])))
   \<and> \<not> closed (fst (snd (handle_client init_app (new_session 0) [Line ''AUTH vm1 secret''])))
   \<and> list_connected_vms (fst (handle_client init_app (new_session 0)
        [Line ''AUTH vm1 secret'', Line ''ADD_VM''])) = []"
  by code_simp

section \<open>Loss of the connection\<close>

text \<open>
  Claim C4 says that a machine whose connection is lost without LOGOUT is no longer
  marked authorized in any view, its row as read by LIST_AUTHORIZED included. The
  \<^verbatim>\<open>finally\<close> block removes the registry entry and writes nothing to the store: after
  \<^verbatim>\<open>AUTH vm1 secret\<close> and the end of input the connection is closed, the registry is
  empty, and the query behind LIST_AUTHORIZED still returns the row of vm1 with
  authorized true.
\<close>

theorem disconnect_leaves_row_authorized:
  "closed (fst (snd (handle_client init_app (new_session 0) [Line ''AUTH vm1 secret'', Eof])))
   \<and> list_connected_vms (fst (handle_client init_app (new_session 0)
        [Line ''AUTH vm1 secret'', Eof])) = []
   \<and> list_authorized_vms (fst (handle_client init_app (new_session 0)
        [Line ''AUTH vm1 secret'', Eof]))
      = [\<lparr>row_vm_id = ''vm1'', row_ram = 0, row_cpu = 0, row_authorized = True, last_seen = 0\<rparr>]"
  by code_simp

section \<open>The disk list\<close>

text \<open>
  Claim C5: on an ADD_VM that is answered with its confirmation, the disk list of the
  bound machine becomes exactly the well-formed tokens after the fourth, in their order;
  on an UPDATE_VM that is answered with its confirmation, the disk list becomes the
  well-formed tokens after the third if there is at least one, and is what it was if
  there is none.
\<close>

theorem disk_list_replacement:
  assumes "\<not> closed s" and "current_vm s = Some r"
    and "split (strip data) = p0 # ps"
    and "Command_of_value (upper p0) = Some c"
    and "handle_event app s (Line data) = (app', s', out)"
  shows "(c = ADD_VM \<and> out = [AddVmOk v] \<longrightarrow>
            disks (heap app' r) = well_formed_disks (drop 4 (p0 # ps))) \<and>
         (c = UPDATE_VM \<and> out = [UpdateVmOk v] \<longrightarrow>
            disks (heap app' r) =
              (if well_formed_disks (drop 3 (p0 # ps)) = [] then disks (heap app r)
               else well_formed_disks (drop 3 (p0 # ps))))"
  using assms(2,5) unfolding handle_event_Line[OF assms(1,3,4)]
  by (cases c)
     (auto simp: handle_ADD_VM_def handle_UPDATE_VM_def parse_disks_acc Let_def
        finally_block_def split: if_splits option.splits prod.splits)

text \<open>Witness for C5: ADD_VM with two malformed tokens among four; ADD_VM with no
  well-formed token on a machine that has a disk; UPDATE_VM on that machine without, and
  with, a well-formed token.\<close>

theorem disk_list_replacement_witness:
  "\<not> closed vm1_session \<and> current_vm vm1_session = Some 0 \<and>
   split (strip ''ADD_VM vm1 2048 2 d1:100 bad d2:x d3:7'')
     = [''ADD_VM'', ''vm1'', ''2048'', ''2'', ''d1:100'', ''bad'', ''d2:x'', ''d3:7''] \<and>
   Command_of_value (upper ''ADD_VM'') = Some ADD_VM \<and>
   snd (snd (handle_event vm1_app vm1_session (Line ''ADD_VM vm1 2048 2 d1:100 bad d2:x d3:7'')))
     = [AddVmOk ''vm1''] \<and>
   disks (heap (fst (handle_event vm1_app vm1_session
     (Line ''ADD_VM vm1 2048 2 d1:100 bad d2:x d3:7''))) 0) = [(''d1'', 100), (''d3'', 7)] \<and>
   snd (snd (handle_event vm1_disk_app vm1_session (Line ''ADD_VM vm1 1 1 bad'')))
     = [AddVmOk ''vm1''] \<and>
   disks (heap vm1_disk_app 0) = [(''d1'', 100)] \<and>
   disks (heap (fst (handle_event vm1_disk_app vm1_session (Line ''ADD_VM vm1 1 1 bad''))) 0) = [] \<and>
   snd (snd (handle_event vm1_disk_app vm1_session (Line ''UPDATE_VM 1 1 bad'')))
     = [UpdateVmOk ''vm1''] \<and>
   disks (heap (fst (handle_event vm1_disk_app vm1_session (Line ''UPDATE_VM 1 1 bad''))) 0)
     = [(''d1'', 100)] \<and>
   snd (snd (handle_event vm1_disk_app vm1_session (Line ''UPDATE_VM 1 1 bad d9:9'')))
     = [UpdateVmOk ''vm1''] \<and>
   disks (heap (fst (handle_event vm1_disk_app vm1_session (Line ''UPDATE_VM 1 1 bad d9:9''))) 0)
     = [(''d9'', 9)]"
proof -
  have h1: "\<not> closed vm1_session" by code_simp
  have h2: "current_vm vm1_session = Some 0" by code_simp
  have a3: "split (strip ''ADD_VM vm1 2048 2 d1:100 bad d2:x d3:7'')
     = [''ADD_VM'', ''vm1'', ''2048'', ''2'', ''d1:100'', ''bad'', ''d2:x'', ''d3:7'']" by code_simp
  have a4: "Command_of_value (upper ''ADD_VM'') = Some ADD_VM" by code_simp
  have a5: "snd (snd (handle_event vm1_app vm1_session
     (Line ''ADD_VM vm1 2048 2 d1:100 bad d2:x d3:7''))) = [AddVmOk ''vm1'']" by code_simp
  have a6: "well_formed_disks [''d1:100'', ''bad'', ''d2:x'', ''d3:7''] = [(''d1'', 100), (''d3'', 7)]"
    by code_simp
  have b3: "split (strip ''ADD_VM vm1 1 1 bad'') = [''ADD_VM'', ''vm1'', ''1'', ''1'', ''bad'']"
    by code_simp
  have b5: "snd (snd (handle_event vm1_disk_app vm1_session (Line ''ADD_VM vm1 1 1 bad'')))
     = [AddVmOk ''vm1'']" by code_simp
  have b6: "well_formed_disks [''bad''] = []" by code_simp
  have d0: "disks (heap vm1_disk_app 0) = [(''d1'', 100)]" by code_simp
  have c3: "split (strip ''UPDATE_VM 1 1 bad'') = [''UPDATE_VM'', ''1'', ''1'', ''bad'']"
    by code_simp
  have c4: "Command_of_value (upper ''UPDATE_VM'') = Some UPDATE_VM" by code_simp
  have c5: "snd (snd (handle_event vm1_disk_app vm1_session (Line ''UPDATE_VM 1 1 bad'')))
     = [UpdateVmOk ''vm1'']" by code_simp
  have d3: "split (strip ''UPDATE_VM 1 1 bad d9:9'')
     = [''UPDATE_VM'', ''1'', ''1'', ''bad'', ''d9:9'']" by code_simp
  have d5: "snd (snd (handle_event vm1_disk_app vm1_session (Line ''UPDATE_VM 1 1 bad d9:9'')))
     = [UpdateVmOk ''vm1'']" by code_simp
  have d6: "well_formed_disks [''bad'', ''d9:9''] = [(''d9'', 9)]" by code_simp
  show ?thesis
    using h1 h2 a3 a4 a5 a6 b5 b6 d0 c5 d5 d6
      disk_list_replacement[OF h1 h2 a3 a4 result_triple, of vm1_app "''vm1''"]
      disk_list_replacement[OF h1 h2 b3 a4 result_triple, of vm1_disk_app "''vm1''"]
      disk_list_replacement[OF h1 h2 c3 c4 result_triple, of vm1_disk_app "''vm1''"]
      disk_list_replacement[OF h1 h2 d3 c4 result_triple, of vm1_disk_app "''vm1''"]
    by simp
qed

section \<open>AUTH\<close>

text \<open>
  Claim C6 says that an AUTH on a session with a bound identity is answered with the
  already-authenticated line whether or not the password matches. The handler compares
  the password first: on the connection bound to vm1 the line \<^verbatim>\<open>AUTH vm1 wrong\<close> is
  answered with the bad-password error. This is the counterexample to C6.
\<close>

theorem auth_bound_wrong_password_counterexample:
  "current_vm (fst (snd (handle_client init_app (new_session 0) [Line ''AUTH vm1 secret''])))
     = Some 0
   \<and> snd (snd (handle_client init_app (new_session 0)
        [Line ''AUTH vm1 secret'', Line ''AUTH vm1 wrong''])) = [AuthSuccess ''vm1'', BadPassword]"
  by code_simp

text \<open>
  Claim C6 as amended: an AUTH received on an open session with a bound identity changes
  neither the session (its bound identity, its being open) nor the server (registry,
  machines, store), and is answered with one line: the missing-arguments error when it
  has fewer than three tokens, else the bad-password error when its password is not the
  configured secret, else the already-authenticated line.
\<close>

theorem auth_when_bound:
  assumes "\<not> closed s" and "current_vm s = Some r"
    and "split (strip data) = p0 # ps"
    and "Command_of_value (upper p0) = Some AUTH"
  shows "handle_event app s (Line data) =
    (app, s, [if length ps < 2 then AuthMissingArgs
              else if ps ! 1 \<noteq> auth_password app then BadPassword
              else AlreadyAuthorized])"
  using assms(2) by (auto simp add: handle_event_Line[OF assms(1,3,4)] handle_AUTH_def)

text \<open>Witness for C6 as amended: the connection bound to vm1 sends an AUTH with the
  right password, one with a wrong password and one without a password.\<close>

theorem auth_when_bound_witness:
  "\<not> closed vm1_session \<and> current_vm vm1_session = Some 0 \<and>
   split (strip ''auth vm2 secret'') = [''auth'', ''vm2'', ''secret''] \<and>
   split (strip ''AUTH vm2 wrong'') = [''AUTH'', ''vm2'', ''wrong''] \<and>
   split (strip ''AUTH vm2'') = [''AUTH'', ''vm2''] \<and>
   Command_of_value (upper ''auth'') = Some AUTH \<and>
   handle_event vm1_app vm1_session (Line ''auth vm2 secret'') =
     (vm1_app, vm1_session, [AlreadyAuthorized]) \<and>
   handle_event vm1_app vm1_session (Line ''AUTH vm2 wrong'') =
     (vm1_app, vm1_session, [BadPassword]) \<and>
   handle_event vm1_app vm1_session (Line ''AUTH vm2'') =
     (vm1_app, vm1_session, [AuthMissingArgs])"
proof -
  have h1: "\<not> closed vm1_session" by code_simp
  have h2: "current_vm vm1_session = Some 0" by code_simp
  have a3: "split (strip ''auth vm2 secret'') = [''auth'', ''vm2'', ''secret'']" by code_simp
  have b3: "split (strip ''AUTH vm2 wrong'') = [''AUTH'', ''vm2'', ''wrong'']" by code_simp
  have c3: "split (strip ''AUTH vm2'') = [''AUTH'', ''vm2'']" by code_simp
  have a4: "Command_of_value (upper ''auth'') = Some AUTH" by code_simp
  have b4: "Command_of_value (upper ''AUTH'') = Some AUTH" by code_simp
  have pw: "auth_password vm1_app = ''secret''" by code_simp
  show ?thesis
    using h1 h2 a3 b3 c3 a4 pw
      auth_when_bound[OF h1 h2 a3 a4, of vm1_app]
      auth_when_bound[OF h1 h2 b3 b4, of vm1_app]
      auth_when_bound[OF h1 h2 c3 b4, of vm1_app]
    by simp
qed




section \<open>LOGOUT\<close>




section \<open>Two connections, one machine id\<close>

text \<open>An event answered with the confirmation of AUTH is a successful AUTH: the session
  had no identity, and the server and the session afterwards are these.\<close>

lemma handle_command_AuthSuccess:
  assumes "handle_command app s c parts = (Reply (AuthSuccess v), app', s')"
  shows "current_vm s = None \<and> s' = s\<lparr>current_vm := Some (next_ref app)\<rparr> \<and>
    app' = app\<lparr>heap := (heap app)(next_ref app :=
                \<lparr>vm_id = v, ram = 0, cpu = 0, disks = [], authorized = True,
                  writer = conn_writer s\<rparr>),
              next_ref := Suc (next_ref app),
              connected_vms := dict_set v (next_ref app) (connected_vms app),
              db_pool := db_pool app'\<rparr>"
  using assms
  by (cases c)
     (auto simp: handle_AUTH_def handle_ADD_VM_def handle_UPDATE_VM_def handle_LOGOUT_def
        json_dumps_rows_def Let_def split: if_splits option.splits prod.splits)

lemma handle_event_AuthSuccess:
  assumes "\<not> closed s" and "handle_event app s (Line data) = (app', s', [AuthSuccess v])"
  shows "current_vm s = None \<and> s' = s\<lparr>current_vm := Some (next_ref app)\<rparr> \<and>
    app' = app\<lparr>heap := (heap app)(next_ref app :=
                \<lparr>vm_id = v, ram = 0, cpu = 0, disks = [], authorized = True,
                  writer = conn_writer s\<rparr>),
              next_ref := Suc (next_ref app),
              connected_vms := dict_set v (next_ref app) (connected_vms app),
              db_pool := db_pool app'\<rparr>"
proof -
  obtain c parts where "handle_command app s c parts = (Reply (AuthSuccess v), app', s')"
    using assms
    by (auto simp: handle_event.simps handle_line_def Let_def finally_block_def
          split: if_splits list.splits option.splits prod.splits outcome.splits)
  then show ?thesis by (rule handle_command_AuthSuccess)
qed

text \<open>
  Claim C9: two open connections each send a line that is answered with the AUTH
  confirmation for the same id, one after the other, and then the first one ends (end of
  input or a failed read). After the second AUTH, the registry entry under the id refers
  to the second session's machine object. After the first connection has ended, the
  registry has no entry under the id, and the id is absent from what LIST_CONNECTED
  lists, although the second session is still open and bound to its machine, which is
  still marked authorized.
\<close>

theorem shared_id_entry_lost_on_first_close:
  assumes "registry_ok app"
    and "\<not> closed s1" and "\<not> closed s2"
    and "handle_event app s1 (Line d1) = (app1, s1', [AuthSuccess v])"
    and "handle_event app1 s2 (Line d2) = (app2, s2', [AuthSuccess v])"
    and "ev = Eof \<or> ev = ReadError"
    and "handle_event app2 s1' ev = (app3, s1'', out3)"
  shows "current_vm s1' = Some (next_ref app) \<and>
         current_vm s2' = Some (Suc (next_ref app)) \<and>
         map_of (connected_vms app1) v = current_vm s1' \<and>
         map_of (connected_vms app2) v = current_vm s2' \<and>
         closed s1'' \<and>
         map_of (connected_vms app3) v = None \<and>
         v \<notin> vm_id ` set (list_connected_vms app3) \<and>
         \<not> closed s2' \<and>
         to_dict (heap app3 (Suc (next_ref app))) =
           \<lparr>vm_id = v, ram = 0, cpu = 0, disks = [], authorized = True\<rparr>"
proof -
  let ?r1 = "next_ref app"
  let ?r2 = "Suc (next_ref app)"
  let ?vm1 = "\<lparr>vm_id = v, ram = 0, cpu = 0, disks = [], authorized = True,
    writer = conn_writer s1\<rparr>"
  let ?vm2 = "\<lparr>vm_id = v, ram = 0, cpu = 0, disks = [], authorized = True,
    writer = conn_writer s2\<rparr>"
  have a1: "app1 = app\<lparr>heap := (heap app)(?r1 := ?vm1), next_ref := ?r2,
                connected_vms := dict_set v ?r1 (connected_vms app),
                db_pool := db_pool app1\<rparr>"
    and s1': "s1' = s1\<lparr>current_vm := Some ?r1\<rparr>"
    using handle_event_AuthSuccess[OF assms(2,4)] by simp_all
  have n1: "next_ref app1 = ?r2" by (subst a1) simp
  have a2: "app2 = app1\<lparr>heap := (heap app1)(?r2 := ?vm2), next_ref := Suc ?r2,
                connected_vms := dict_set v ?r2 (connected_vms app1),
                db_pool := db_pool app2\<rparr>"
    and s2': "s2' = s2\<lparr>current_vm := Some ?r2\<rparr>"
    using handle_event_AuthSuccess[OF assms(3,5)] n1 by simp_all
  have ok2: "registry_ok app2"
    using registry_ok_handle_event[OF registry_ok_handle_event[OF assms(1), of s1 "Line d1"],
            of s2 "Line d2"] assms(4,5) by simp
  have fin: "handle_event app2 s1' ev
      = (fst (finally_block app2 s1'), snd (finally_block app2 s1'), [])"
    using assms(2,6) s1' by (auto simp: handle_event.simps split: prod.splits)
  have h1: "heap app1 ?r1 = ?vm1" by (subst a1) simp
  have h2: "heap app2 ?r1 = heap app1 ?r1" "heap app2 ?r2 = ?vm2" by (subst a2, simp)+
  have k: "vm_id (heap app2 ?r1) = v" by (simp add: h1 h2)
  have a3: "app3 = app2\<lparr>connected_vms := dict_pop v (connected_vms app2)\<rparr>"
    and c1: "closed s1''"
    using assms(7) k s1' unfolding fin by (auto simp: finally_block_def)
  have absent: "v \<notin> vm_id ` set (list_connected_vms app3)"
    unfolding a3 by (rule not_listed_after_pop[OF ok2])
  have obj: "to_dict (heap app3 ?r2)
      = \<lparr>vm_id = v, ram = 0, cpu = 0, disks = [], authorized = True\<rparr>"
    by (simp add: a3 h2 to_dict_def)
  have m1: "map_of (connected_vms app1) v = Some ?r1"
    by (subst a1) (simp add: map_of_dict_set)
  have m2: "map_of (connected_vms app2) v = Some ?r2"
    by (subst a2) (simp add: map_of_dict_set)
  show ?thesis
    using absent obj c1 assms(3) m1 m2
    by (simp add: s1' s2' a3 map_of_dict_pop)
qed

text \<open>Witness for C9: connections 0 and 1 of the initial server both send
  \<^verbatim>\<open>AUTH vm1 secret\<close>, then connection 0 reaches the end of its input.\<close>

theorem shared_id_entry_lost_on_first_close_witness:
  "registry_ok init_app \<and> \<not> closed (new_session 0) \<and> \<not> closed (new_session 1) \<and>
   handle_event init_app (new_session 0) (Line ''AUTH vm1 secret'')
     = (vm1_app, vm1_session, [AuthSuccess ''vm1'']) \<and>
   snd (snd (handle_event vm1_app (new_session 1) (Line ''AUTH vm1 secret'')))
     = [AuthSuccess ''vm1''] \<and>
   current_vm vm1_session = Some 0 \<and>
   map_of (connected_vms (fst (handle_event vm1_app (new_session 1) (Line ''AUTH vm1 secret''))))
      ''vm1'' = Some 1 \<and>
   current_vm (fst (snd (handle_event vm1_app (new_session 1) (Line ''AUTH vm1 secret''))))
      = Some 1 \<and>
   \<not> closed (fst (snd (handle_event vm1_app (new_session 1) (Line ''AUTH vm1 secret'')))) \<and>
   closed (fst (snd (handle_event
      (fst (handle_event vm1_app (new_session 1) (Line ''AUTH vm1 secret''))) vm1_session Eof))) \<and>
   map_of (connected_vms (fst (handle_event
      (fst (handle_event vm1_app (new_session 1) (Line ''AUTH vm1 secret''))) vm1_session Eof)))
      ''vm1'' = None \<and>
   ''vm1'' \<notin> vm_id ` set (list_connected_vms (fst (handle_event
      (fst (handle_event vm1_app (new_session 1) (Line ''AUTH vm1 secret''))) vm1_session Eof))) \<and>
   to_dict (heap (fst (handle_event
      (fst (handle_event vm1_app (new_session 1) (Line ''AUTH vm1 secret''))) vm1_session Eof)) 1)
     = \<lparr>vm_id = ''vm1'', ram = 0, cpu = 0, disks = [], authorized = True\<rparr>"
proof -
  let ?e2 = "handle_event vm1_app (new_session 1) (Line ''AUTH vm1 secret'')"
  have h1: "registry_ok init_app" by code_simp
  have h2: "\<not> closed (new_session 0)" by code_simp
  have h3: "\<not> closed (new_session 1)" by code_simp
  have o1: "snd (snd (handle_event init_app (new_session 0) (Line ''AUTH vm1 secret'')))
    = [AuthSuccess ''vm1'']" by code_simp
  have o2: "snd (snd ?e2) = [AuthSuccess ''vm1'']" by code_simp
  have e1: "handle_event init_app (new_session 0) (Line ''AUTH vm1 secret'')
      = (vm1_app, vm1_session, [AuthSuccess ''vm1''])"
    using o1 by (simp add: vm1_app_def vm1_session_def prod_eq_iff)
  have e2: "?e2 = (fst ?e2, fst (snd ?e2), [AuthSuccess ''vm1''])"
    using o2 by (simp add: prod_eq_iff)
  have h6: "Eof = Eof \<or> Eof = ReadError" by simp
  have n: "next_ref init_app = 0" by code_simp
  show ?thesis
    using h1 h2 h3 e1 o2 n
      shared_id_entry_lost_on_first_close[OF h1 h2 h3 e1 e2 h6 result_triple]
    by simp
qed

section \<open>ADD_VM for another machine\<close>

text \<open>
  Claim C10: on an open session with a bound identity, an ADD_VM whose second token is
  not the bound machine's id is answered with the forbidden error and changes nothing,
  however many tokens follow, so also when the line has fewer than four tokens: the
  ownership check comes before the count of the arguments.
\<close>

theorem add_vm_foreign_id_forbidden:
  assumes "\<not> closed s" and "current_vm s = Some r"
    and "split (strip data) = p0 # other # rest"
    and "Command_of_value (upper p0) = Some ADD_VM"
    and "other \<noteq> vm_id (heap app r)"
  shows "handle_event app s (Line data) = (app, s, [Forbidden])"
  using assms(2,5) by (simp add: handle_event_Line[OF assms(1,3,4)] handle_ADD_VM_def)

text \<open>Witness for C10: the connection bound to vm1 sends the two-token line
  \<^verbatim>\<open>ADD_VM vm2\<close>.\<close>

theorem add_vm_foreign_id_forbidden_witness:
  "\<not> closed vm1_session \<and> current_vm vm1_session = Some 0 \<and>
   split (strip ''ADD_VM vm2'') = [''ADD_VM'', ''vm2''] \<and>
   Command_of_value (upper ''ADD_VM'') = Some ADD_VM \<and>
   ''vm2'' \<noteq> vm_id (heap vm1_app 0) \<and>
   handle_event vm1_app vm1_session (Line ''ADD_VM vm2'') = (vm1_app, vm1_session, [Forbidden])"
proof -
  have h1: "\<not> closed vm1_session" by code_simp
  have h2: "current_vm vm1_session = Some 0" by code_simp
  have h3: "split (strip ''ADD_VM vm2'') = [''ADD_VM'', ''vm2'']" by code_simp
  have h4: "Command_of_value (upper ''ADD_VM'') = Some ADD_VM" by code_simp
  have h5: "''vm2'' \<noteq> vm_id (heap vm1_app 0)" by code_simp
  show ?thesis
    using h1 h2 h3 h4 h5 add_vm_foreign_id_forbidden[OF h1 h2 h3 h4 h5] by simp
qed

end
